theory Spec2Isabelle
  imports Main "HOL-Library.Sublist"
begin

section \<open>Text\<close>

text \<open>
  A Python \<open>str\<close> is a sequence of Unicode code points; a code point is a natural
  number.  \<open>U\<close> turns an ASCII literal of the source into such a sequence.
\<close>

type_synonym ustr = "nat list"

definition U :: "string \<Rightarrow> ustr" where
  "U s = map of_char s"

definition NL :: ustr where
  "NL = [10]"

text \<open>\<open>s.split('\n')\<close>: the pieces between line feeds; one empty piece for the empty string.\<close>

fun split_nl :: "ustr \<Rightarrow> ustr list" where
  "split_nl [] = [[]]"
| "split_nl (c # cs) =
     (if c = 10 then [] # split_nl cs
      else (c # hd (split_nl cs)) # tl (split_nl cs))"

text \<open>\<open>'\n'.join(lines)\<close>.\<close>

fun join_nl :: "ustr list \<Rightarrow> ustr" where
  "join_nl [] = []"
| "join_nl [l] = l"
| "join_nl (l # m # ls) = l @ NL @ join_nl (m # ls)"


datatype error = ValueError | TemplateError | ReadError | WriteError | EncodeError

section \<open>Comment styles\<close>

type_synonym style = "ustr \<times> ustr \<times> ustr"

definition DEFAULT_COMMENT_STYLE :: style where
  "DEFAULT_COMMENT_STYLE = (U ''#'', U ''#'', [])"

definition COMMENT_STYLES :: "(ustr \<times> style) list" where
  "COMMENT_STYLES =
    [(U ''py'', (U ''#'', U ''#'', [])),
     (U ''js'', (U ''//'', U ''//'', [])),
     (U ''java'', (U ''//'', U ''//'', [])),
     (U ''c'', (U ''//'', U ''//'', [])),
     (U ''cpp'', (U ''//'', U ''//'', [])),
     (U ''cs'', (U ''//'', U ''//'', [])),
     (U ''go'', (U ''//'', U ''//'', [])),
     (U ''rs'', (U ''//'', U ''//'', [])),
     (U ''swift'', (U ''//'', U ''//'', [])),
     (U ''kt'', (U ''//'', U ''//'', [])),
     (U ''scala'', (U ''//'', U ''//'', [])),
     (U ''rb'', (U ''#'', U ''#'', [])),
     (U ''pl'', (U ''#'', U ''#'', [])),
     (U ''sh'', (U ''#'', U ''#'', [])),
     (U ''bash'', (U ''#'', U ''#'', [])),
     (U ''zsh'', (U ''#'', U ''#'', [])),
     (U ''yaml'', (U ''#'', U ''#'', [])),
     (U ''yml'', (U ''#'', U ''#'', [])),
     (U ''toml'', (U ''#'', U ''#'', [])),
     (U ''ini'', (U '';'', U '';'', [])),
     (U ''cfg'', (U '';'', U '';'', [])),
     (U ''conf'', (U ''#'', U ''#'', [])),
     (U ''sql'', (U ''--'', U ''--'', [])),
     (U ''lua'', (U ''--'', U ''--'', [])),
     (U ''hs'', (U ''--'', U ''--'', [])),
     (U ''md'', (U ''<!--'', U '' *'', U ''-->'')),
     (U ''html'', (U ''<!--'', U '' *'', U ''-->'')),
     (U ''htm'', (U ''<!--'', U '' *'', U ''-->'')),
     (U ''xml'', (U ''<!--'', U '' *'', U ''-->'')),
     (U ''css'', (U ''/*'', U '' *'', U ''*/'')),
     (U ''scss'', (U ''/*'', U '' *'', U ''*/'')),
     (U ''less'', (U ''/*'', U '' *'', U ''*/'')),
     (U ''php'', (U ''/*'', U '' *'', U ''*/'')),
     (U ''jsx'', (U ''/*'', U '' *'', U ''*/'')),
     (U ''tsx'', (U ''/*'', U '' *'', U ''*/''))]"

text \<open>\<open>COMMENT_STYLES.get(file_extension.lstrip('.'), DEFAULT_COMMENT_STYLE)\<close>.\<close>

definition get_comment_style :: "ustr \<Rightarrow> style" where
  "get_comment_style file_extension =
     (case map_of COMMENT_STYLES (dropWhile (\<lambda>c. c = 46) file_extension) of
        Some st \<Rightarrow> st
      | None \<Rightarrow> DEFAULT_COMMENT_STYLE)"

section \<open>The regular expressions of the map block\<close>

text \<open>
  The one pattern the program builds consists of escaped literals, the lazy \<open>.*?\<close>
  (under \<open>re.DOTALL\<close>, so the dot takes every character), the greedy \<open>\s*\<close>, and
  two capturing groups.  The matcher is the backtracking matcher of \<open>re\<close> on this
  fragment: a lazy star tries the rest of the pattern first and takes one more character
  only when the rest fails; a greedy star takes a character first and gives it back only
  when the rest fails.  A result holds the text left at each group boundary, in order of
  the boundaries, and the text left after the match.
\<close>

datatype rx = Lit ustr | AnyLazy | SpaceStar | GOpen | GClose

text \<open>The characters \<open>\s\<close> matches in a \<open>str\<close> pattern (those \<open>str.isspace\<close> accepts).\<close>

definition is_space :: "nat \<Rightarrow> bool" where
  "is_space c \<longleftrightarrow>
     (9 \<le> c \<and> c \<le> 13) \<or> (28 \<le> c \<and> c \<le> 32) \<or> c = 133 \<or> c = 160 \<or> c = 5760
     \<or> (8192 \<le> c \<and> c \<le> 8202) \<or> c = 8232 \<or> c = 8233 \<or> c = 8239 \<or> c = 8287
     \<or> c = 12288"

fun match_here :: "rx list \<Rightarrow> ustr \<Rightarrow> (ustr list \<times> ustr) option" where
  "match_here [] s = Some ([], s)"
| "match_here (Lit l # ps) s =
     (if prefix l s then match_here ps (drop (length l) s) else None)"
| "match_here (AnyLazy # ps) [] = match_here ps []"
| "match_here (AnyLazy # ps) (c # cs) =
     (case match_here ps (c # cs) of
        Some r \<Rightarrow> Some r
      | None \<Rightarrow> match_here (AnyLazy # ps) cs)"
| "match_here (SpaceStar # ps) [] = match_here ps []"
| "match_here (SpaceStar # ps) (c # cs) =
     (if is_space c then
        (case match_here (SpaceStar # ps) cs of
           Some r \<Rightarrow> Some r
         | None \<Rightarrow> match_here ps (c # cs))
      else match_here ps (c # cs))"
| "match_here (GOpen # ps) s =
     (case match_here ps s of None \<Rightarrow> None | Some (ms, r) \<Rightarrow> Some (s # ms, r))"
| "match_here (GClose # ps) s =
     (case match_here ps s of None \<Rightarrow> None | Some (ms, r) \<Rightarrow> Some (s # ms, r))"

text \<open>
  \<open>re.search\<close>: the match at the leftmost position that has one.  The result is the
  text before the match, the group boundaries, and the text after the match.
\<close>

fun re_search :: "rx list \<Rightarrow> ustr \<Rightarrow> (ustr \<times> ustr list \<times> ustr) option" where
  "re_search ps [] =
     (case match_here ps [] of None \<Rightarrow> None | Some (ms, r) \<Rightarrow> Some ([], ms, r))"
| "re_search ps (c # cs) =
     (case match_here ps (c # cs) of
        Some (ms, r) \<Rightarrow> Some ([], ms, r)
      | None \<Rightarrow>
         (case re_search ps cs of
            None \<Rightarrow> None
          | Some (pre, ms, r) \<Rightarrow> Some (c # pre, ms, r)))"

definition group_count :: "rx list \<Rightarrow> nat" where
  "group_count ps = length (filter (\<lambda>p. p = GOpen) ps)"

text \<open>The text of each group, from the boundaries (an opening one, then its closing one).\<close>

fun group_texts :: "ustr list \<Rightarrow> ustr list" where
  "group_texts (a # b # ms) = take (length a - length b) a # group_texts ms"
| "group_texts _ = []"

subsection \<open>Replacement templates\<close>

text \<open>
  \<open>re.subn\<close> reads a replacement string as a template (\<open>parse_template\<close> of the
  \<open>re\<close> module): a backslash starts a group reference (\<open>\1\<close>, \<open>\g<1>\<close>), an octal
  escape, one of the escapes \<open>\a \b \f \n \r \t \v \\\<close>, or, before any other
  character that is not an ASCII letter, stands for itself together with that
  character.  A backslash before another ASCII letter, a backslash at the end, a
  malformed \<open>\g<...>\<close> and a reference to a group the pattern does not have are
  errors.  The pattern has no named groups, so a name that is not a decimal number is an
  error as well.
\<close>

datatype tpart = TLit ustr | TGroup nat

definition is_digit :: "nat \<Rightarrow> bool" where
  "is_digit c \<longleftrightarrow> 48 \<le> c \<and> c \<le> 57"

definition is_octdigit :: "nat \<Rightarrow> bool" where
  "is_octdigit c \<longleftrightarrow> 48 \<le> c \<and> c \<le> 55"

definition is_ascii_letter :: "nat \<Rightarrow> bool" where
  "is_ascii_letter c \<longleftrightarrow> (65 \<le> c \<and> c \<le> 90) \<or> (97 \<le> c \<and> c \<le> 122)"

definition digits_value :: "nat \<Rightarrow> ustr \<Rightarrow> nat" where
  "digits_value base ds = foldl (\<lambda>a c. base * a + (c - 48)) 0 ds"

definition escape_char :: "nat \<Rightarrow> nat option" where
  "escape_char c =
     (if c = 97 then Some 7 else if c = 98 then Some 8 else if c = 102 then Some 12
      else if c = 110 then Some 10 else if c = 114 then Some 13 else if c = 116 then Some 9
      else if c = 118 then Some 11 else if c = 92 then Some 92 else None)"

definition add_part :: "tpart \<Rightarrow> error + tpart list \<Rightarrow> error + tpart list" where
  "add_part p r = (case r of Inl e \<Rightarrow> Inl e | Inr ps \<Rightarrow> Inr (p # ps))"

function parse_template :: "nat \<Rightarrow> ustr \<Rightarrow> error + tpart list" where
  "parse_template groups [] = Inr []"
| "parse_template groups [c] =
     (if c = 92 then Inl TemplateError else Inr [TLit [c]])"
| "parse_template groups (c # d # ds) =
     (if c \<noteq> 92 then add_part (TLit [c]) (parse_template groups (d # ds))
      else if d = 103 then
        (let name = takeWhile (\<lambda>x. x \<noteq> 62) (tl ds);
             rest = dropWhile (\<lambda>x. x \<noteq> 62) (tl ds)
         in if ds = [] \<or> hd ds \<noteq> 60 then Inl TemplateError
            else if rest = [] \<or> name = [] then Inl TemplateError
            else if \<not> list_all is_digit name then Inl TemplateError
            else if digits_value 10 name > groups then Inl TemplateError
            else add_part (TGroup (digits_value 10 name)) (parse_template groups (tl rest)))
      else if d = 48 then
        (let n = length (takeWhile is_octdigit (take 2 ds))
         in add_part (TLit [digits_value 8 (take n ds) mod 256])
              (parse_template groups (drop n ds)))
      else if is_digit d then
        (if ds \<noteq> [] \<and> is_digit (hd ds) then
           (if is_octdigit d \<and> is_octdigit (hd ds) \<and> tl ds \<noteq> [] \<and> is_octdigit (hd (tl ds))
            then
              (if digits_value 8 (d # take 2 ds) > 255 then Inl TemplateError
               else add_part (TLit [digits_value 8 (d # take 2 ds)])
                      (parse_template groups (drop 2 ds)))
            else
              (if digits_value 10 [d, hd ds] > groups then Inl TemplateError
               else add_part (TGroup (digits_value 10 [d, hd ds]))
                      (parse_template groups (tl ds))))
         else
           (if digits_value 10 [d] > groups then Inl TemplateError
            else add_part (TGroup (digits_value 10 [d])) (parse_template groups ds)))
      else
        (case escape_char d of
           Some e \<Rightarrow> add_part (TLit [e]) (parse_template groups ds)
         | None \<Rightarrow>
            if is_ascii_letter d then Inl TemplateError
            else add_part (TLit [c, d]) (parse_template groups ds)))"
  by pat_completeness auto
termination
proof (relation "measure (\<lambda>(g, s). length s)", goal_cases)
  case (3 groups c d ds name rest)
  have "length (tl (dropWhile (\<lambda>x. x \<noteq> 62) (tl ds))) \<le> length ds"
    using length_dropWhile_le [of "\<lambda>x. x \<noteq> 62" "tl ds"] by simp
  with 3 show ?case by simp
qed auto

text \<open>The expansion of a parsed template on the groups of a match (group 0 first).\<close>

definition expand_template :: "tpart list \<Rightarrow> ustr list \<Rightarrow> ustr" where
  "expand_template parts gs =
     concat (map (\<lambda>p. case p of TLit l \<Rightarrow> l | TGroup i \<Rightarrow> gs ! i) parts)"

text \<open>
  \<open>re.subn(pattern, repl, string, count=1, flags=re.DOTALL)\<close>: the template is read
  first; then the leftmost match, if any, is replaced by the template's expansion.
\<close>

definition re_subn :: "rx list \<Rightarrow> ustr \<Rightarrow> ustr \<Rightarrow> error + (ustr \<times> nat)" where
  "re_subn pat repl s =
     (case parse_template (group_count pat) repl of
        Inl e \<Rightarrow> Inl e
      | Inr parts \<Rightarrow>
         (case re_search pat s of
            None \<Rightarrow> Inr (s, 0)
          | Some (pre, ms, r) \<Rightarrow>
             (let m = drop (length pre) s;
                  gs = take (length m - length r) m # group_texts ms
              in Inr (pre @ expand_template parts gs @ r, 1))))"

section \<open>Inserting the map into a file's content\<close>

text \<open>
  Lines 221--226 of \<open>update_files_with_tree\<close>: the block that is inserted.
\<close>

definition updated_map :: "style \<Rightarrow> ustr \<Rightarrow> ustr \<Rightarrow> ustr" where
  "updated_map st tree name =
     (case st of (comment_start, comment_middle, comment_end) \<Rightarrow>
        comment_start @ U '' Repository Map:'' @ NL
        @ concat (map (\<lambda>line. comment_middle @ U '' '' @ line @ NL) (split_nl tree))
        @ comment_middle @ U '' File: '' @ name @ NL
        @ (if comment_end \<noteq> [] then comment_end @ NL else []))"

text \<open>Lines 229--231: the pattern of an existing block.\<close>

definition map_pattern :: "style \<Rightarrow> rx list" where
  "map_pattern st =
     (case st of (comment_start, comment_middle, comment_end) \<Rightarrow>
        [GOpen, Lit comment_start, Lit (U '' Repository Map:''), AnyLazy,
         Lit comment_middle, Lit (U '' File:''), AnyLazy, Lit NL, GClose]
        @ (if comment_end \<noteq> [] then [GOpen, Lit comment_end, SpaceStar, GClose] else []))"

text \<open>Lines 233--240: the new content of the file, or the exception raised.\<close>

definition updated_content :: "style \<Rightarrow> ustr \<Rightarrow> ustr \<Rightarrow> ustr \<Rightarrow> error + ustr" where
  "updated_content st tree name content =
     (if re_search (map_pattern st) content \<noteq> None then
        (case re_subn (map_pattern st) (updated_map st tree name) content of
           Inl e \<Rightarrow> Inl e
         | Inr (new_content, n) \<Rightarrow>
            Inr (if n = 0 then updated_map st tree name @ content else new_content))
      else Inr (updated_map st tree name @ content))"


section \<open>Paths\<close>

text \<open>
  A POSIX \<open>pathlib\<close> path: whether it starts at the root, and its segments.  The
  segments of a path that \<open>pathlib\<close> builds are not empty, are not \<open>.\<close> and hold no
  \<open>/\<close>.
\<close>

datatype path = Path (is_absolute: bool) (segs: "ustr list")






text \<open>\<open>s.rfind('.')\<close>: the index of the last dot.\<close>

fun rfind_dot :: "ustr \<Rightarrow> nat option" where
  "rfind_dot [] = None"
| "rfind_dot (c # cs) =
     (case rfind_dot cs of
        Some i \<Rightarrow> Some (Suc i)
      | None \<Rightarrow> if c = 46 then Some 0 else None)"


definition path_parent :: "path \<Rightarrow> path" where
  "path_parent p = Path (is_absolute p) (butlast (segs p))"



section \<open>The file system\<close>

text \<open>
  A file is what the program can observe of it: whether it can be opened for reading and
  for writing, whether its bytes decode in the locale's encoding (the test of
  \<open>is_binary_file\<close>), the text that reading it as UTF-8 with universal newlines gives
  (\<open>None\<close> when the bytes do not decode), and its size in bytes.
\<close>

record fileinfo =
  readable :: bool
  writable :: bool
  locale_text :: bool
  utf8_text :: "ustr option"
  st_size :: nat

datatype node = Dir | File fileinfo

type_synonym fsys = "path \<Rightarrow> node option"


definition is_dir :: "fsys \<Rightarrow> path \<Rightarrow> bool" where
  "is_dir fs p = (case fs p of Some Dir \<Rightarrow> True | _ \<Rightarrow> False)"

section \<open>Library functions taken as parameters\<close>


section \<open>The exclusion filter\<close>







section \<open>Reading, writing and copying files\<close>

text \<open>
  \<open>open(p, 'r', encoding='utf-8').read()\<close>; \<open>None\<close> when it raises.
\<close>

definition read_text :: "fsys \<Rightarrow> path \<Rightarrow> ustr option" where
  "read_text fs p =
     (case fs p of
        Some (File f) \<Rightarrow> if readable f then utf8_text f else None
      | _ \<Rightarrow> None)"


text \<open>
  A string can be encoded as UTF-8 when it holds no surrogate code point (a file name whose
  bytes are not UTF-8 reaches the program as a string with such code points).
\<close>

definition encodable :: "ustr \<Rightarrow> bool" where
  "encodable s = list_all (\<lambda>c. c < 55296 \<or> (57343 < c \<and> c < 1114112)) s"

definition utf8_size :: "ustr \<Rightarrow> nat" where
  "utf8_size s =
     sum_list (map (\<lambda>c. if c < 128 then 1 else if c < 2048 then 2 else if c < 65536 then 3 else 4) s)"

text \<open>Reading in text mode turns \<open>\r\n\<close> and \<open>\r\<close> into \<open>\n\<close>.\<close>

fun universal_newlines :: "ustr \<Rightarrow> ustr" where
  "universal_newlines [] = []"
| "universal_newlines [c] = (if c = 13 then [10] else [c])"
| "universal_newlines (c # d # cs) =
     (if c = 13 then
        (if d = 10 then 10 # universal_newlines cs else 10 # universal_newlines (d # cs))
      else c # universal_newlines (d # cs))"

definition new_file :: "ustr \<Rightarrow> fileinfo" where
  "new_file s =
     \<lparr>readable = True, writable = True, locale_text = True,
      utf8_text = Some (universal_newlines s), st_size = utf8_size s\<rparr>"

text \<open>
  \<open>with open(p, 'w', encoding='utf-8') as f: f.write(s)\<close> on POSIX.  Opening fails, and
  changes nothing, on a directory, on a file that is not writable and where the parent
  directory is missing; otherwise it empties the file.  Writing then fails when \<open>s\<close>
  cannot be encoded, and the file stays empty.  The result says whether the statement
  completed.
\<close>

definition write_text :: "fsys \<Rightarrow> path \<Rightarrow> ustr \<Rightarrow> fsys \<times> bool" where
  "write_text fs p s =
     (case fs p of
        Some Dir \<Rightarrow> (fs, False)
      | Some (File f) \<Rightarrow>
         if \<not> writable f then (fs, False)
         else if encodable s then
           (fs(p \<mapsto> File (f\<lparr>utf8_text := Some (universal_newlines s), st_size := utf8_size s\<rparr>)),
            True)
         else (fs(p \<mapsto> File (f\<lparr>utf8_text := Some [], st_size := 0\<rparr>)), False)
      | None \<Rightarrow>
         if \<not> is_dir fs (path_parent p) then (fs, False)
         else if encodable s then (fs(p \<mapsto> File (new_file s)), True)
         else (fs(p \<mapsto> File (new_file [])), False))"




section \<open>Metrics and log\<close>

text \<open>
  The counters of \<open>Metrics\<close> that the functions below change.  The messages they log at
  the levels info, warning and error are kept as a list of events, oldest first.
\<close>

record metrics =
  files_processed :: int
  files_modified :: int
  files_skipped :: int
  backup_size :: int
  errors :: int

datatype event =
    Skipping_excluded path
  | Skipping_binary path
  | Backup_failed path
  | Backup_created_for path
  | Updated path
  | Updated_without_backup path
  | No_changes_needed path
  | Error_processing path
  | Backup_skipped_in_backup_dir path
  | Backup_skipped_excluded path
  | Backup_path_too_long path
  | Backup_created path
  | Backup_error path

record state =
  files :: fsys
  counters :: metrics
  events :: "event list"

definition logged :: "event \<Rightarrow> state \<Rightarrow> state" where
  "logged e st = st\<lparr>events := events st @ [e]\<rparr>"

definition count_error :: "state \<Rightarrow> state" where
  "count_error st = st\<lparr>counters := (counters st)\<lparr>errors := errors (counters st) + 1\<rparr>\<rparr>"

definition count_skipped :: "state \<Rightarrow> state" where
  "count_skipped st =
     st\<lparr>counters := (counters st)\<lparr>files_skipped := files_skipped (counters st) + 1\<rparr>\<rparr>"

definition count_processed :: "state \<Rightarrow> state" where
  "count_processed st =
     st\<lparr>counters := (counters st)\<lparr>files_processed := files_processed (counters st) + 1\<rparr>\<rparr>"

definition count_modified :: "state \<Rightarrow> state" where
  "count_modified st =
     st\<lparr>counters := (counters st)\<lparr>files_modified := files_modified (counters st) + 1\<rparr>\<rparr>"

section \<open>Backups\<close>




section \<open>Updating the files\<close>

text \<open>
  One round of the loop of \<open>update_files_with_tree\<close> (lines 189--256), for the path
  \<open>filepath\<close> that \<open>startpath.rglob('*')\<close> yields, is \<open>update_file\<close> below;
  \<open>modified_files\<close> is the list built so far.  An exception of \<open>should_exclude\<close> is
  raised outside the \<open>try\<close> and ends the function.
\<close>

definition failed_file :: "path \<Rightarrow> state \<Rightarrow> state" where
  "failed_file filepath st = count_skipped (count_error (logged (Error_processing filepath) st))"






section \<open>The last lines of the tree\<close>







section \<open>Examples\<close>










text \<open>
  A Python file \<open>x.py\<close> with the one line \<open>hello\<close>, after a run with the tree \<open>a/\<close>:
  the map block, then the line.
\<close>

definition py_style :: style where
  "py_style = get_comment_style (U ''.py'')"

definition md_style :: style where
  "md_style = get_comment_style (U ''.md'')"

definition mapped_hello_py :: ustr where
  "mapped_hello_py =
     U ''# Repository Map:'' @ NL @ U ''# a/'' @ NL @ U ''# File: x.py'' @ NL @ U ''hello''"









section \<open>Notions used in the statements\<close>






definition updated_paths :: "event list \<Rightarrow> path list" where
  "updated_paths evs = concat (map (\<lambda>e. case e of Updated p \<Rightarrow> [p] | _ \<Rightarrow> []) evs)"






text \<open>The definitions a concrete evaluation unfolds.\<close>

lemmas eval_defs =
  updated_content_def updated_map_def map_pattern_def py_style_def md_style_def
  get_comment_style_def COMMENT_STYLES_def DEFAULT_COMMENT_STYLE_def U_def NL_def
  re_subn_def group_count_def expand_template_def add_part_def is_digit_def
  is_octdigit_def is_ascii_letter_def digits_value_def escape_char_def is_space_def


section \<open>Facts about the exclusion filter\<close>

lemma split_nl_not_Nil: "split_nl s \<noteq> []"
  by (cases s) auto















section \<open>Facts about the last lines of the tree\<close>
















section \<open>Facts about backups\<close>







lemma rfind_dot_less: "rfind_dot s = Some i \<Longrightarrow> i < length s"
  by (induction s arbitrary: i) (auto split: option.splits if_splits)





























section \<open>Facts about the update of the files\<close>

lemma updated_paths_append [simp]:
  "updated_paths (xs @ ys) = updated_paths xs @ updated_paths ys"
  by (simp add: updated_paths_def)

lemma updated_paths_Nil [simp]: "updated_paths [] = []"
  by (simp add: updated_paths_def)




lemma read_text_cong: "fs p = fs' p \<Longrightarrow> read_text fs p = read_text fs' p"
  by (simp add: read_text_def)



lemma write_text_other: "q \<noteq> p \<Longrightarrow> fst (write_text fs p s) q = fs q"
  by (auto simp: write_text_def split: option.splits node.splits)








lemma events_simps [simp]:
  "events (logged e st) = events st @ [e]"
  "events (count_skipped st) = events st"
  "events (count_error st) = events st"
  "events (count_processed st) = events st"
  "events (count_modified st) = events st"
  "events (failed_file p st) = events st @ [Error_processing p]"
  by (simp_all add: logged_def count_skipped_def count_error_def count_processed_def
      count_modified_def failed_file_def)

lemma files_simps [simp]:
  "files (logged e st) = files st"
  "files (count_skipped st) = files st"
  "files (count_error st) = files st"
  "files (count_processed st) = files st"
  "files (count_modified st) = files st"
  "files (failed_file p st) = files st"
  by (simp_all add: logged_def count_skipped_def count_error_def count_processed_def
      count_modified_def failed_file_def)

lemma counters_simps [simp]:
  "counters (logged e st) = counters st"
  "counters (count_skipped st) = (counters st)\<lparr>files_skipped := files_skipped (counters st) + 1\<rparr>"
  "counters (count_error st) = (counters st)\<lparr>errors := errors (counters st) + 1\<rparr>"
  "counters (count_processed st) = (counters st)\<lparr>files_processed := files_processed (counters st) + 1\<rparr>"
  "counters (count_modified st) = (counters st)\<lparr>files_modified := files_modified (counters st) + 1\<rparr>"
  "counters (failed_file p st) =
     (counters st)\<lparr>errors := errors (counters st) + 1, files_skipped := files_skipped (counters st) + 1\<rparr>"
  by (simp_all add: logged_def count_skipped_def count_error_def count_processed_def
      count_modified_def failed_file_def)









section \<open>The replacement is read as a template\<close>

text \<open>
  C8.  There are a file content that holds a map block inserted by an earlier run and a tree
  text with a backslash for which the update does not put the freshly encoded block in
  place of the old one.  The content is that of \<open>x.py\<close> above.  With the tree line
  \<open>a\1b\<close> (a backslash before a digit) the substitution expands \<open>\1\<close> to the old
  block, so the result is not the new block followed by the rest of the file; with the
  tree line \<open>a\gb\<close> the substitution raises.
\<close>

theorem template_expansion_alters_block:
  "updated_content py_style (U ''a/'') (U ''x.py'') (U ''hello'') = Inr mapped_hello_py
   \<and> updated_content py_style (U ''a'' @ [92] @ U ''1b'') (U ''x.py'') mapped_hello_py =
       Inr (U ''# Repository Map:'' @ NL
            @ U ''# a# Repository Map:'' @ NL @ U ''# a/'' @ NL @ U ''# File: x.py'' @ NL
            @ U ''b'' @ NL @ U ''# File: x.py'' @ NL @ U ''hello'')
   \<and> updated_content py_style (U ''a'' @ [92] @ U ''1b'') (U ''x.py'') mapped_hello_py \<noteq>
       Inr (updated_map py_style (U ''a'' @ [92] @ U ''1b'') (U ''x.py'') @ U ''hello'')
   \<and> updated_content py_style (U ''a'' @ [92] @ U ''gb'') (U ''x.py'') mapped_hello_py =
       Inl TemplateError"
  by (simp add: eval_defs mapped_hello_py_def)

end
